theory Spec2Isabelle
  imports Complex_Main "HOL-Library.Sublist"
begin

section \<open>Values of the program\<close>

text \<open>
  The module \<^verbatim>\<open>homework.py\<close> computes with Python numbers and Python strings.

  \<^item> A Python number (an \<^verbatim>\<open>int\<close> or a \<^verbatim>\<open>float\<close>) is modelled by a \<^typ>\<open>real\<close>, and
    the arithmetic of the program by the exact arithmetic of the reals: the rounding of
    binary64 is outside this model. The dataclasses do not enforce their annotations, so
    a field annotated \<^verbatim>\<open>int\<close> holds whatever number it was given.
  \<^item> A Python \<^verbatim>\<open>str\<close> is a sequence of Unicode code points, modelled by a list of
    naturals. ASCII text is embedded from a HOL string literal by \<open>ascii\<close>.
  \<^item> An exception is a value of type \<open>error\<close>; a computation that may raise returns
    \<open>error + 'a\<close>, with \<open>Inl\<close> for the exception.

  The second half of the theory refines the arithmetic to binary64: every operation
  rounds its exact result to the nearest float. There \<open>OverflowError\<close> is the exception
  Python raises when an \<^verbatim>\<open>int\<close> is too large for a float or a power overflows, and
  \<open>NotFinite\<close> marks a product, sum or quotient beyond the largest float, where Python
  raises nothing and goes on with \<^verbatim>\<open>inf\<close>: the model of the finite floats ends there.
\<close>

type_synonym str = "nat list"

definition ascii :: "string \<Rightarrow> str" where
  "ascii s = map of_char s"

datatype error =
    ZeroDivisionError
  | NotImplementedError
  | ValueError str
  | TypeError
  | KeyError
  | OverflowError
  | NotFinite

text \<open>Python's \<^verbatim>\<open>x / y\<close> and \<^verbatim>\<open>x // y\<close> on floats: both raise on a zero divisor.\<close>

definition truediv :: "real \<Rightarrow> real \<Rightarrow> error + real" where
  "truediv x y = (if y = 0 then Inl ZeroDivisionError else Inr (x / y))"

definition floordiv :: "real \<Rightarrow> real \<Rightarrow> error + real" where
  "floordiv x y = (if y = 0 then Inl ZeroDivisionError else Inr (of_int \<lfloor>x / y\<rfloor>))"

section \<open>The format specifier \<^verbatim>\<open>.3f\<close>\<close>

text \<open>
  \<^verbatim>\<open>format(x, '.3f')\<close> prints the decimal with three fractional digits that is nearest to
  \<open>x\<close>, a tie going to the even last digit, with a leading minus sign for a negative
  \<open>x\<close>.
\<close>

definition round_half_even :: "real \<Rightarrow> int" where
  "round_half_even x =
     (let f = \<lfloor>x\<rfloor>; r = x - of_int f
      in if r < 1 / 2 then f
         else if 1 / 2 < r then f + 1
         else if even f then f else f + 1)"

definition digit :: "nat \<Rightarrow> nat" where
  "digit d = 48 + d"

fun str_nat :: "nat \<Rightarrow> str" where
  "str_nat n = (if n < 10 then [digit n] else str_nat (n div 10) @ [digit (n mod 10)])"

declare str_nat.simps [simp del]

definition last3 :: "nat \<Rightarrow> str" where
  "last3 n = [digit (n div 100 mod 10), digit (n div 10 mod 10), digit (n mod 10)]"

definition format_3f :: "real \<Rightarrow> str" where
  "format_3f x =
     (let n = nat (round_half_even (\<bar>x\<bar> * 1000))
      in (if x < 0 then ascii ''-'' else [])
         @ str_nat (n div 1000) @ ascii ''.'' @ last3 n)"

text \<open>
  What a printed number denotes: \<open>is_digit\<close> recognises the code points of
  \<^verbatim>\<open>0\<close> to \<^verbatim>\<open>9\<close>, and \<open>digits_value\<close> reads a digit string in base ten.
\<close>

definition is_digit :: "nat \<Rightarrow> bool" where
  "is_digit c = (48 \<le> c \<and> c \<le> 57)"

definition digits_value :: "str \<Rightarrow> nat" where
  "digits_value s = foldl (\<lambda>acc c. 10 * acc + (c - 48)) 0 s"

section \<open>InfoMessage\<close>

text \<open>
  The dataclass has five data fields and a sixth field \<^verbatim>\<open>message\<close>, the template, with a
  default. A template is a sequence of literal text and replacement fields; the ones the
  default uses are \<^verbatim>\<open>{training_type}\<close> and \<^verbatim>\<open>{name:.3f}\<close> for the four numbers.
\<close>

datatype number_field = Duration | Distance | Speed | Calories

datatype piece = Lit str | Training_type | Fixed3 number_field

record InfoMessage =
  training_type :: str
  duration :: real
  distance :: real
  speed :: real
  calories :: real
  message :: "piece list"

text \<open>
  The default of \<^verbatim>\<open>message\<close>. The Cyrillic text is given by its code points; it reads
  "Tip trenirovki: {training_type}; Dlitel'nost': {duration:.3f} ch.;
  Distantsiya: {distance:.3f} km; Sr. skorost': {speed:.3f} km/ch;
  Potracheno kkal: {calories:.3f}."
\<close>

definition txt_type :: str where
  "txt_type = [0x422, 0x438, 0x43F, 0x20, 0x442, 0x440, 0x435, 0x43D, 0x438, 0x440, 0x43E,
     0x432, 0x43A, 0x438, 0x3A, 0x20]"

definition txt_duration :: str where
  "txt_duration = [0x3B, 0x20, 0x414, 0x43B, 0x438, 0x442, 0x435, 0x43B, 0x44C, 0x43D, 0x43E,
     0x441, 0x442, 0x44C, 0x3A, 0x20]"

definition txt_distance :: str where
  "txt_distance = [0x20, 0x447, 0x2E, 0x3B, 0x20, 0x414, 0x438, 0x441, 0x442, 0x430, 0x43D,
     0x446, 0x438, 0x44F, 0x3A, 0x20]"

definition txt_speed :: str where
  "txt_speed = [0x20, 0x43A, 0x43C, 0x3B, 0x20, 0x421, 0x440, 0x2E, 0x20, 0x441, 0x43A,
     0x43E, 0x440, 0x43E, 0x441, 0x442, 0x44C, 0x3A, 0x20]"

definition txt_calories :: str where
  "txt_calories = [0x20, 0x43A, 0x43C, 0x2F, 0x447, 0x3B, 0x20, 0x41F, 0x43E, 0x442, 0x440,
     0x430, 0x447, 0x435, 0x43D, 0x43E, 0x20, 0x43A, 0x43A, 0x430, 0x43B, 0x3A, 0x20]"

definition default_message :: "piece list" where
  "default_message =
     [Lit txt_type, Training_type,
      Lit txt_duration, Fixed3 Duration,
      Lit txt_distance, Fixed3 Distance,
      Lit txt_speed, Fixed3 Speed,
      Lit txt_calories, Fixed3 Calories,
      Lit (ascii ''.'')]"

text \<open>The constructor call with five arguments, as \<^verbatim>\<open>show_training_info\<close> makes it.\<close>

definition InfoMessage_init :: "str \<Rightarrow> real \<Rightarrow> real \<Rightarrow> real \<Rightarrow> real \<Rightarrow> InfoMessage" where
  "InfoMessage_init tt du di sp ca =
     \<lparr>training_type = tt, duration = du, distance = di, speed = sp, calories = ca,
      message = default_message\<rparr>"

fun number_of :: "InfoMessage \<Rightarrow> number_field \<Rightarrow> real" where
  "number_of m Duration = InfoMessage.duration m"
| "number_of m Distance = InfoMessage.distance m"
| "number_of m Speed = InfoMessage.speed m"
| "number_of m Calories = InfoMessage.calories m"

fun render :: "InfoMessage \<Rightarrow> piece \<Rightarrow> str" where
  "render m (Lit s) = s"
| "render m Training_type = InfoMessage.training_type m"
| "render m (Fixed3 f) = format_3f (number_of m f)"

definition get_message :: "InfoMessage \<Rightarrow> str" where
  "get_message m = concat (map (render m) (InfoMessage.message m))"

section \<open>Training and its subclasses\<close>

datatype training =
    Training (action: real) (duration: real) (weight: real)
  | Running (action: real) (duration: real) (weight: real)
  | SportsWalking (action: real) (duration: real) (weight: real) (height: real)
  | Swimming (action: real) (duration: real) (weight: real)
      (length_pool: real) (count_pool: real)

text \<open>\<^verbatim>\<open>self.__class__.__name__\<close>\<close>

fun class_name :: "training \<Rightarrow> str" where
  "class_name (Training _ _ _) = ascii ''Training''"
| "class_name (Running _ _ _) = ascii ''Running''"
| "class_name (SportsWalking _ _ _ _) = ascii ''SportsWalking''"
| "class_name (Swimming _ _ _ _ _) = ascii ''Swimming''"

text \<open>Class constants; \<^verbatim>\<open>LEN_STEP\<close> is overridden by \<^verbatim>\<open>Swimming\<close>.\<close>

fun LEN_STEP :: "training \<Rightarrow> real" where
  "LEN_STEP (Swimming _ _ _ _ _) = 1.38"
| "LEN_STEP _ = 0.65"

definition M_IN_KM :: real where
  "M_IN_KM = 1000"

definition TIME_CONST :: real where
  "TIME_CONST = 60"

definition Running_coeff_calorie_1 :: real where
  "Running_coeff_calorie_1 = 18"

definition Running_coeff_calorie_2 :: real where
  "Running_coeff_calorie_2 = 20"

definition SportsWalking_coeff_calorie_1 :: real where
  "SportsWalking_coeff_calorie_1 = 0.035"

definition SportsWalking_coeff_calorie_2 :: real where
  "SportsWalking_coeff_calorie_2 = 0.029"

definition SportsWalking_coeff_calorie_3 :: nat where
  "SportsWalking_coeff_calorie_3 = 2"

definition Swimming_coeff_calorie_1 :: real where
  "Swimming_coeff_calorie_1 = 1.1"

definition Swimming_coeff_calorie_2 :: real where
  "Swimming_coeff_calorie_2 = 2"

definition get_distance :: "training \<Rightarrow> real" where
  "get_distance t = training.action t * LEN_STEP t / M_IN_KM"

fun get_mean_speed :: "training \<Rightarrow> error + real" where
  "get_mean_speed (Swimming a d w l c) = truediv (l * c / M_IN_KM) d"
| "get_mean_speed t = truediv (get_distance t) (training.duration t)"

fun get_spent_calories :: "training \<Rightarrow> error + real" where
  "get_spent_calories (Training a d w) = Inl NotImplementedError"
| "get_spent_calories (Running a d w) =
     (case get_mean_speed (Running a d w) of
        Inl e \<Rightarrow> Inl e
      | Inr v \<Rightarrow>
          Inr ((Running_coeff_calorie_1 * v - Running_coeff_calorie_2) * w
               / M_IN_KM * d * TIME_CONST))"
| "get_spent_calories (SportsWalking a d w h) =
     (case get_mean_speed (SportsWalking a d w h) of
        Inl e \<Rightarrow> Inl e
      | Inr v \<Rightarrow>
         (case floordiv (v ^ SportsWalking_coeff_calorie_3) h of
            Inl e \<Rightarrow> Inl e
          | Inr q \<Rightarrow>
              Inr ((SportsWalking_coeff_calorie_1 * w
                    + q * SportsWalking_coeff_calorie_2 * w)
                   * TIME_CONST * d)))"
| "get_spent_calories (Swimming a d w l c) =
     (case get_mean_speed (Swimming a d w l c) of
        Inl e \<Rightarrow> Inl e
      | Inr v \<Rightarrow> Inr ((v + Swimming_coeff_calorie_1) * Swimming_coeff_calorie_2 * w))"

definition show_training_info :: "training \<Rightarrow> error + InfoMessage" where
  "show_training_info t =
     (case get_mean_speed t of
        Inl e \<Rightarrow> Inl e
      | Inr sp \<Rightarrow>
         (case get_spent_calories t of
            Inl e \<Rightarrow> Inl e
          | Inr ca \<Rightarrow>
              Inr (InfoMessage_init (class_name t) (training.duration t)
                     (get_distance t) sp ca)))"

section \<open>The dispatcher and the driver\<close>

datatype training_class = Swimming_class | Running_class | SportsWalking_class

definition workout :: "str \<rightharpoonup> training_class" where
  "workout = map_of
     [(ascii ''SWM'', Swimming_class),
      (ascii ''RUN'', Running_class),
      (ascii ''WLK'', SportsWalking_class)]"

text \<open>
  \<^verbatim>\<open>cls(*data)\<close>: the generated \<^verbatim>\<open>__init__\<close> binds the values to the fields in
  declaration order and raises \<^verbatim>\<open>TypeError\<close> when their number is not the number of
  fields.
\<close>

fun construct :: "training_class \<Rightarrow> real list \<Rightarrow> error + training" where
  "construct Running_class [a, d, w] = Inr (Running a d w)"
| "construct SportsWalking_class [a, d, w, h] = Inr (SportsWalking a d w h)"
| "construct Swimming_class [a, d, w, l, c] = Inr (Swimming a d w l c)"
| "construct _ _ = Inl TypeError"

text \<open>
  The text of the \<^verbatim>\<open>ValueError\<close>: "Takoy trenirovki - {workout_type}, ne naydeno".
\<close>

definition txt_unknown_pre :: str where
  "txt_unknown_pre = [0x422, 0x430, 0x43A, 0x43E, 0x439, 0x20, 0x442, 0x440, 0x435, 0x43D,
     0x438, 0x440, 0x43E, 0x432, 0x43A, 0x438, 0x20, 0x2D, 0x20]"

definition txt_unknown_post :: str where
  "txt_unknown_post = [0x2C, 0x20, 0x43D, 0x435, 0x20, 0x43D, 0x430, 0x439, 0x434, 0x435,
     0x43D, 0x43E]"

definition read_package :: "str \<Rightarrow> real list \<Rightarrow> error + training" where
  "read_package workout_type data =
     (if workout workout_type = None
      then Inl (ValueError (txt_unknown_pre @ workout_type @ txt_unknown_post))
      else (case workout workout_type of
              None \<Rightarrow> Inl KeyError
            | Some cls \<Rightarrow> construct cls data))"

text \<open>
  \<^verbatim>\<open>main\<close> prints one line; the standard output is the list of the lines printed so
  far. \<open>run_package\<close> is the body of the loop of the \<^verbatim>\<open>__main__\<close> block.
\<close>

definition main :: "training \<Rightarrow> str list \<Rightarrow> error + str list" where
  "main t out =
     (case show_training_info t of
        Inl e \<Rightarrow> Inl e
      | Inr info \<Rightarrow> Inr (out @ [get_message info]))"

definition run_package :: "str \<Rightarrow> real list \<Rightarrow> str list \<Rightarrow> error + str list" where
  "run_package workout_type data out =
     (case read_package workout_type data of
        Inl e \<Rightarrow> Inl e
      | Inr t \<Rightarrow> main t out)"

text \<open>
  The loop of the \<^verbatim>\<open>__main__\<close> block over its list of packages; an exception ends
  the run.
\<close>

fun run_packages :: "(str \<times> real list) list \<Rightarrow> str list \<Rightarrow> error + str list" where
  "run_packages [] out = Inr out"
| "run_packages ((workout_type, data) # rest) out =
     (case run_package workout_type data out of
        Inl e \<Rightarrow> Inl e
      | Inr out' \<Rightarrow> run_packages rest out')"

definition packages :: "(str \<times> real list) list" where
  "packages =
     [(ascii ''SWM'', [720, 1, 80, 25, 40]),
      (ascii ''RUN'', [15000, 1, 75]),
      (ascii ''WLK'', [9000, 1, 75, 180])]"

section \<open>The summary the specification expects for the sample run\<close>

text \<open>
  The specification quotes the text that the line printed for the sample run
  \<^verbatim>\<open>('RUN', [15000, 1, 75])\<close> must contain: "Dlitel'nost': 1.000 ch.; Distantsiya:
  9.750 km; Sr. skorost': 9.750 km/ch; Potracheno kkal: <calories>.". It is the
  template from the word after the label on; \<open>expected_summary\<close> takes the printed
  calories as its argument.
\<close>

definition expected_summary :: "str \<Rightarrow> str" where
  "expected_summary cal =
     drop 2 txt_duration @ ascii ''1.000'' @ txt_distance @ ascii ''9.750''
     @ txt_speed @ ascii ''9.750'' @ txt_calories @ cal @ ascii ''.''"

section \<open>Binary64 arithmetic\<close>

text \<open>
  A finite float is a real number of the form \<open>m * 2 ^ e\<close> with \<open>\<bar>m\<bar> < 2 ^ 53\<close> and
  \<open>- 1074 \<le> e\<close>, below \<open>2 ^ 1024\<close> in magnitude. \<open>expo x\<close> is the binary exponent of a
  non-zero \<open>x\<close>, the integer \<open>e\<close> with \<open>2 ^ e \<le> \<bar>x\<bar> < 2 ^ (e + 1)\<close>; \<open>quantum x\<close> is the
  distance between neighbouring floats at \<open>x\<close>, constant below \<open>2 ^ - 1022\<close>, where the
  floats are subnormal; and \<open>fl x\<close> is the multiple of the quantum nearest to \<open>x\<close>, a tie
  going to the even multiple, which is IEEE 754 rounding to nearest.
\<close>

fun bitlen :: "nat \<Rightarrow> nat" where
  "bitlen n = (if n = 0 then 0 else Suc (bitlen (n div 2)))"

declare bitlen.simps [simp del]

definition expo :: "real \<Rightarrow> int" where
  "expo x = (if 1 \<le> \<bar>x\<bar> then int (bitlen (nat \<lfloor>\<bar>x\<bar>\<rfloor>)) - 1
             else - int (bitlen (nat (\<lceil>1 / \<bar>x\<bar>\<rceil> - 1))))"

definition quantum :: "real \<Rightarrow> real" where
  "quantum x = 2 powi (max (expo x - 52) (- 1074))"

definition fl :: "real \<Rightarrow> real" where
  "fl x = (if x = 0 then 0 else real_of_int (round_half_even (x / quantum x)) * quantum x)"

text \<open>
  The result of an operation is its exact result rounded; a rounded result of magnitude
  \<open>2 ^ 1024\<close> or more is no finite float, and the operation ends with the error given.
\<close>

definition finite_result :: "error \<Rightarrow> real \<Rightarrow> error + real" where
  "finite_result e x = (if \<bar>fl x\<bar> < 2 ^ 1024 then Inr (fl x) else Inl e)"

text \<open>
  \<open>to_float\<close> is the conversion of an operand to \<^verbatim>\<open>float\<close>: the identity on a float, the
  nearest float for an \<^verbatim>\<open>int\<close>, and \<^verbatim>\<open>OverflowError\<close> for an \<^verbatim>\<open>int\<close> too large. The fields
  of an instance are read through it: a field holds the number it was given, a float or
  an \<^verbatim>\<open>int\<close>, and an \<^verbatim>\<open>int\<close> enters the arithmetic of this program as the float of the same
  value (Python keeps a product or a quotient of two \<^verbatim>\<open>int\<close> fields exact where this model
  rounds it, which differs only beyond \<open>2 ^ 53\<close>).
\<close>

definition to_float :: "real \<Rightarrow> error + real" where
  "to_float x = finite_result OverflowError x"



definition fmul :: "real \<Rightarrow> real \<Rightarrow> error + real" where
  "fmul x y = finite_result NotFinite (x * y)"

definition fdiv :: "real \<Rightarrow> real \<Rightarrow> error + real" where
  "fdiv x y = (if y = 0 then Inl ZeroDivisionError else finite_result NotFinite (x / y))"





section \<open>The calculations in binary64\<close>

text \<open>
  The methods of the classes again, with every operation of the source rounded as the
  interpreter rounds it and in the order in which the source evaluates it. A decimal
  literal of the source is the float nearest to it; 18, 20, 60, 1000 and 2 are floats
  as they stand.
\<close>

definition and_then :: "error + 'a \<Rightarrow> ('a \<Rightarrow> error + 'b) \<Rightarrow> error + 'b" where
  "and_then r f = (case r of Inl e \<Rightarrow> Inl e | Inr v \<Rightarrow> f v)"

definition get_distance_b64 :: "training \<Rightarrow> error + real" where
  "get_distance_b64 t =
     and_then (to_float (training.action t)) (\<lambda>a.
     and_then (fmul a (fl (LEN_STEP t))) (\<lambda>p.
     fdiv p M_IN_KM))"




section \<open>Facts about the format specifier\<close>

lemma str_nat_small: "n < 10 \<Longrightarrow> str_nat n = [digit n]"
  by (simp add: str_nat.simps)

lemma str_nat_large: "10 \<le> n \<Longrightarrow> str_nat n = str_nat (n div 10) @ [digit (n mod 10)]"
  by (subst str_nat.simps) simp

lemma str_nat_not_Nil: "str_nat n \<noteq> []"
  by (subst str_nat.simps) simp

lemma digits_value_snoc: "digits_value (s @ [c]) = 10 * digits_value s + (c - 48)"
  by (simp add: digits_value_def)

text \<open>Reading the printed digits of a natural number gives the number back.\<close>

lemma digits_value_str_nat: "digits_value (str_nat n) = n"
proof (induction n rule: str_nat.induct)
  case (1 n)
  show ?case
  proof (cases "n < 10")
    case True
    then show ?thesis
      by (simp add: str_nat_small digits_value_def digit_def)
  next
    case False
    then have "digits_value (str_nat (n div 10)) = n div 10"
      using 1 by simp
    with False show ?thesis
      by (simp add: str_nat_large digits_value_snoc digit_def)
  qed
qed

lemma is_digit_digit: "d < 10 \<Longrightarrow> is_digit (digit d)"
  by (simp add: is_digit_def digit_def)

lemma str_nat_digits: "c \<in> set (str_nat n) \<Longrightarrow> is_digit c"
proof (induction n rule: str_nat.induct)
  case (1 n)
  show ?case
  proof (cases "n < 10")
    case True
    with 1(2) show ?thesis
      by (simp add: str_nat_small is_digit_digit)
  next
    case False
    with 1 show ?thesis
      by (auto simp add: str_nat_large is_digit_digit)
  qed
qed

lemma last3_digits: "c \<in> set (last3 n) \<Longrightarrow> is_digit c"
  by (auto simp add: last3_def is_digit_digit)

lemma length_last3: "length (last3 n) = 3"
  by (simp add: last3_def)

lemma last3_sum:
  "100 * (n div 100 mod 10) + 10 * (n div 10 mod 10) + n mod 10 = n mod (1000::nat)"
proof -
  have a: "n mod (100 * 10) = 100 * (n div 100 mod 10) + n mod 100"
    by (rule mod_mult2_eq)
  have b: "n mod (10 * 10) = 10 * (n div 10 mod 10) + n mod 10"
    by (rule mod_mult2_eq)
  show ?thesis using a b by simp
qed

lemma digits_value_last3: "digits_value (last3 n) = n mod 1000"
proof -
  have "digits_value (last3 n) = 100 * (n div 100 mod 10) + 10 * (n div 10 mod 10) + n mod 10"
    by (simp add: last3_def digits_value_def digit_def)
  then show ?thesis
    by (simp only: last3_sum)
qed

lemma split_1000: "real (n div 1000) + real (n mod 1000) / 1000 = real n / 1000"
proof -
  have "1000 * (n div 1000) + n mod 1000 = n" by simp
  then have "real (1000 * (n div 1000) + n mod 1000) = real n" by (rule arg_cong)
  then have "1000 * real (n div 1000) + real (n mod 1000) = real n"
    by (simp only: of_nat_add of_nat_mult of_nat_numeral)
  then show ?thesis by (simp add: field_simps)
qed

text \<open>Rounding moves a number by at most one half, and keeps it non-negative.\<close>

lemma round_half_even_near: "\<bar>real_of_int (round_half_even y) - y\<bar> \<le> 1 / 2"
  unfolding round_half_even_def Let_def by (auto; linarith)

lemma round_half_even_nonneg: "0 \<le> y \<Longrightarrow> 0 \<le> round_half_even y"
  unfolding round_half_even_def Let_def by (auto; linarith)

lemma format_3f_value:
  "\<bar>real (digits_value (str_nat (nat (round_half_even (\<bar>x\<bar> * 1000)) div 1000)))
      + real (digits_value (last3 (nat (round_half_even (\<bar>x\<bar> * 1000))))) / 1000
      - \<bar>x\<bar>\<bar> \<le> 1 / 2000"
proof -
  define n where "n = nat (round_half_even (\<bar>x\<bar> * 1000))"
  have nn: "0 \<le> round_half_even (\<bar>x\<bar> * 1000)"
    by (rule round_half_even_nonneg) simp
  have "real n = real_of_int (round_half_even (\<bar>x\<bar> * 1000))"
    using nn by (simp add: n_def)
  then have near: "\<bar>real n - \<bar>x\<bar> * 1000\<bar> \<le> 1 / 2"
    using round_half_even_near [of "\<bar>x\<bar> * 1000"] by simp
  have eq1: "real (digits_value (str_nat (n div 1000))) + real (digits_value (last3 n)) / 1000
      = real n / 1000"
    by (simp only: digits_value_str_nat digits_value_last3 split_1000)
  have eq2: "real n / 1000 - \<bar>x\<bar> = (real n - \<bar>x\<bar> * 1000) / 1000"
    by (simp add: diff_divide_distrib)
  have "\<bar>(real n - \<bar>x\<bar> * 1000) / 1000\<bar> \<le> 1 / 2000"
    using near by simp
  then show ?thesis
    unfolding n_def [symmetric] eq1 eq2 .
qed

lemma format_3f_shape:
  "\<exists>ip fr. format_3f x = (if x < 0 then ascii ''-'' else []) @ ip @ ascii ''.'' @ fr
     \<and> ip \<noteq> [] \<and> length fr = 3 \<and> (\<forall>c\<in>set (ip @ fr). is_digit c)
     \<and> \<bar>real (digits_value ip) + real (digits_value fr) / 1000 - \<bar>x\<bar>\<bar> \<le> 1 / 2000"
proof -
  define n where "n = nat (round_half_even (\<bar>x\<bar> * 1000))"
  have "format_3f x = (if x < 0 then ascii ''-'' else []) @ str_nat (n div 1000) @ ascii ''.'' @ last3 n"
    by (simp add: format_3f_def n_def Let_def)
  moreover have "str_nat (n div 1000) \<noteq> []"
    by (rule str_nat_not_Nil)
  moreover have "length (last3 n) = 3"
    by (rule length_last3)
  moreover have "\<forall>c\<in>set (str_nat (n div 1000) @ last3 n). is_digit c"
    using str_nat_digits last3_digits by auto
  moreover have "\<bar>real (digits_value (str_nat (n div 1000)))
      + real (digits_value (last3 n)) / 1000 - \<bar>x\<bar>\<bar> \<le> 1 / 2000"
    unfolding n_def by (rule format_3f_value)
  ultimately show ?thesis by blast
qed

lemma format_3f_example: "format_3f 9.75 = ascii ''9.750''"
  by (simp add: format_3f_def round_half_even_def ascii_def digit_def last3_def
      str_nat_small str_nat_large)

lemma get_message_default_template:
  "InfoMessage.message m = default_message \<Longrightarrow>
   get_message m =
     txt_type @ InfoMessage.training_type m
     @ txt_duration @ format_3f (InfoMessage.duration m)
     @ txt_distance @ format_3f (InfoMessage.distance m)
     @ txt_speed @ format_3f (InfoMessage.speed m)
     @ txt_calories @ format_3f (InfoMessage.calories m) @ ascii ''.''"
  by (simp add: get_message_def default_message_def)

lemma get_message_default:
  "get_message (InfoMessage_init tt du di sp ca) =
     txt_type @ tt @ txt_duration @ format_3f du @ txt_distance @ format_3f di
     @ txt_speed @ format_3f sp @ txt_calories @ format_3f ca @ ascii ''.''"
  by (simp add: get_message_default_template InfoMessage_init_def)

section \<open>Rendering the message\<close>

text \<open>
  Claim C8, as stated, fails: \<^verbatim>\<open>message\<close> is an ordinary field of the dataclass, and an
  InfoMessage built with a sixth argument renders that template in place of the fixed
  one. With the template "x" the message is "x".
\<close>

theorem get_message_custom_template_counterexample:
  "get_message
     \<lparr>training_type = ascii ''Running'', duration = 1, distance = 9.75, speed = 9.75,
      calories = 699.75, message = [Lit (ascii ''x'')]\<rparr> = ascii ''x''
   \<and> ascii ''x'' \<noteq>
       txt_type @ ascii ''Running'' @ txt_duration @ format_3f 1 @ txt_distance
       @ format_3f 9.75 @ txt_speed @ format_3f 9.75 @ txt_calories @ format_3f 699.75
       @ ascii ''.''"
  by (simp add: get_message_def ascii_def txt_type_def)

text \<open>
  Claim C8, amended. For every InfoMessage whose \<^verbatim>\<open>message\<close> field is left at its
  default, as each one built from its five data fields is, \<open>get_message\<close> is the
  fixed template: the label, then duration, distance, mean speed and calories in that
  order. Each number is printed by \<open>format_3f\<close>: an optional minus sign, at least
  one integer digit, a period and exactly three fractional digits, and the decimal
  printed is within one half of a thousandth of the number, which is rounding and not
  truncation. For example 9.75 is printed as "9.750".
\<close>

theorem get_message_three_decimals:
  "InfoMessage.message (InfoMessage_init tt du di sp ca) = default_message
   \<and> (InfoMessage.message m = default_message \<longrightarrow>
        get_message m =
          txt_type @ InfoMessage.training_type m
          @ txt_duration @ format_3f (InfoMessage.duration m)
          @ txt_distance @ format_3f (InfoMessage.distance m)
          @ txt_speed @ format_3f (InfoMessage.speed m)
          @ txt_calories @ format_3f (InfoMessage.calories m) @ ascii ''.'')
   \<and> (\<exists>ip fr. format_3f x = (if x < 0 then ascii ''-'' else []) @ ip @ ascii ''.'' @ fr
         \<and> ip \<noteq> [] \<and> length fr = 3 \<and> (\<forall>c\<in>set (ip @ fr). is_digit c)
         \<and> \<bar>real (digits_value ip) + real (digits_value fr) / 1000 - \<bar>x\<bar>\<bar> \<le> 1 / 2000)
   \<and> format_3f 9.75 = ascii ''9.750''"
proof -
  have "InfoMessage.message (InfoMessage_init tt du di sp ca) = default_message"
    by (simp add: InfoMessage_init_def)
  then show ?thesis
    using get_message_default_template [of m] format_3f_shape [of x] format_3f_example
    by blast
qed

text \<open>
  The theorem at the message of the sample run and at the number 0.0006, which rounds
  up to "0.001" where truncation would print "0.000".
\<close>

theorem get_message_three_decimals_witness:
  "InfoMessage.message (InfoMessage_init (ascii ''Running'') 1 9.75 9.75 699.75)
     = default_message
   \<and> get_message (InfoMessage_init (ascii ''Running'') 1 9.75 9.75 699.75) =
     txt_type @ ascii ''Running'' @ txt_duration @ ascii ''1.000'' @ txt_distance
     @ ascii ''9.750'' @ txt_speed @ ascii ''9.750'' @ txt_calories @ ascii ''699.750''
     @ ascii ''.''
   \<and> format_3f 0.0006 = ascii ''0.001''
   \<and> (\<exists>ip fr. ascii ''0.001'' = ip @ ascii ''.'' @ fr
         \<and> ip \<noteq> [] \<and> length fr = 3 \<and> (\<forall>c\<in>set (ip @ fr). is_digit c)
         \<and> \<bar>real (digits_value ip) + real (digits_value fr) / 1000 - 0.0006\<bar> \<le> 1 / 2000)"
proof -
  have e1: "format_3f 1 = ascii ''1.000''"
    by (simp add: format_3f_def round_half_even_def ascii_def digit_def last3_def
        str_nat_small str_nat_large)
  have e2: "format_3f 699.75 = ascii ''699.750''"
    by (simp add: format_3f_def round_half_even_def ascii_def digit_def last3_def
        str_nat_small str_nat_large)
  have e3: "format_3f 0.0006 = ascii ''0.001''"
    by (simp add: format_3f_def round_half_even_def ascii_def digit_def last3_def
        str_nat_small str_nat_large)
  note t = get_message_three_decimals
    [of "ascii ''Running''" 1 "9.75" "9.75" "699.75"
        "InfoMessage_init (ascii ''Running'') 1 9.75 9.75 699.75" "0.0006"]
  from t have d: "InfoMessage.message (InfoMessage_init (ascii ''Running'') 1 9.75 9.75 699.75)
     = default_message"
    by blast
  with t have "get_message (InfoMessage_init (ascii ''Running'') 1 9.75 9.75 699.75) =
     txt_type @ ascii ''Running'' @ txt_duration @ format_3f 1 @ txt_distance
     @ format_3f 9.75 @ txt_speed @ format_3f 9.75 @ txt_calories @ format_3f 699.75
     @ ascii ''.''"
    by (simp add: InfoMessage_init_def)
  moreover from t have "format_3f 9.75 = ascii ''9.750''"
    by blast
  moreover from t have "\<exists>ip fr. format_3f 0.0006 = ip @ ascii ''.'' @ fr
         \<and> ip \<noteq> [] \<and> length fr = 3 \<and> (\<forall>c\<in>set (ip @ fr). is_digit c)
         \<and> \<bar>real (digits_value ip) + real (digits_value fr) / 1000 - 0.0006\<bar> \<le> 1 / 2000"
    by simp
  ultimately show ?thesis
    using d by (simp only: e1 e2 e3 simp_thms)
qed

section \<open>Distance, mean speed and calories\<close>

lemma mean_speed_Running:
  "d \<noteq> 0 \<Longrightarrow> get_mean_speed (Running a d w) = Inr (a * 0.65 / 1000 / d)"
  by (simp add: truediv_def get_distance_def M_IN_KM_def)

lemma mean_speed_SportsWalking:
  "d \<noteq> 0 \<Longrightarrow> get_mean_speed (SportsWalking a d w h) = Inr (a * 0.65 / 1000 / d)"
  by (simp add: truediv_def get_distance_def M_IN_KM_def)

lemma mean_speed_Swimming:
  "d \<noteq> 0 \<Longrightarrow> get_mean_speed (Swimming a d w l c) = Inr (l * c / 1000 / d)"
  by (simp add: truediv_def M_IN_KM_def)

lemma mean_speed_zero_duration:
  "training.duration t = 0 \<Longrightarrow> get_mean_speed t = Inl ZeroDivisionError"
  by (cases t) (simp_all add: truediv_def)

lemma calories_Running:
  "get_mean_speed (Running a d w) = Inr v \<Longrightarrow>
   get_spent_calories (Running a d w) = Inr ((18 * v - 20) * w / 1000 * d * 60)"
  by (simp add: Running_coeff_calorie_1_def Running_coeff_calorie_2_def M_IN_KM_def
      TIME_CONST_def)

lemma calories_SportsWalking:
  "get_mean_speed (SportsWalking a d w h) = Inr v \<Longrightarrow> h \<noteq> 0 \<Longrightarrow>
   get_spent_calories (SportsWalking a d w h) =
     Inr ((0.035 * w + real_of_int \<lfloor>v\<^sup>2 / h\<rfloor> * 0.029 * w) * 60 * d)"
  by (simp add: floordiv_def SportsWalking_coeff_calorie_1_def
      SportsWalking_coeff_calorie_2_def SportsWalking_coeff_calorie_3_def TIME_CONST_def)

lemma calories_Swimming:
  "get_mean_speed (Swimming a d w l c) = Inr v \<Longrightarrow>
   get_spent_calories (Swimming a d w l c) = Inr ((v + 1.1) * 2 * w)"
  by (simp add: Swimming_coeff_calorie_1_def Swimming_coeff_calorie_2_def)





lemma show_training_info_ok:
  "get_mean_speed t = Inr sp \<Longrightarrow> get_spent_calories t = Inr ca \<Longrightarrow>
   show_training_info t =
     Inr (InfoMessage_init (class_name t) (training.duration t) (get_distance t) sp ca)"
  by (simp add: show_training_info_def)

text \<open>
  Claim C5. Two Swimming instances that differ only in the action count have the same
  mean speed and the same calories (also when both calls fail), and with a non-zero
  duration the mean speed is \<open>length_pool * count_pool / 1000 / duration\<close>, in which
  neither the action count nor the distance occurs.
\<close>

theorem swimming_ignores_action:
  "get_mean_speed (Swimming a1 d w l c) = get_mean_speed (Swimming a2 d w l c)
   \<and> get_spent_calories (Swimming a1 d w l c) = get_spent_calories (Swimming a2 d w l c)
   \<and> (d \<noteq> 0 \<longrightarrow> get_mean_speed (Swimming a1 d w l c) = Inr (l * c / 1000 / d))"
  by (simp add: truediv_def M_IN_KM_def)

text \<open>
  The sample swim with 720 and with 100000 strokes: the distances differ, the speed
  and the calories do not.
\<close>

theorem swimming_ignores_action_witness:
  "(1::real) \<noteq> 0
   \<and> get_distance (Swimming 720 1 80 25 40) \<noteq> get_distance (Swimming 100000 1 80 25 40)
   \<and> get_mean_speed (Swimming 720 1 80 25 40) = Inr 1
   \<and> get_mean_speed (Swimming 100000 1 80 25 40) = Inr 1
   \<and> get_spent_calories (Swimming 720 1 80 25 40)
       = get_spent_calories (Swimming 100000 1 80 25 40)"
proof -
  note t = swimming_ignores_action [of 720 1 80 25 40 100000]
  have d: "get_distance (Swimming 720 1 80 25 40) \<noteq> get_distance (Swimming 100000 1 80 25 40)"
    by (simp add: get_distance_def M_IN_KM_def)
  have s1: "get_mean_speed (Swimming 720 1 80 25 40) = Inr 1"
    using t by simp
  then have s2: "get_mean_speed (Swimming 100000 1 80 25 40) = Inr 1"
    using t by simp
  show ?thesis
    using d s1 s2 t by simp
qed

section \<open>The dispatcher\<close>

lemma workout_None:
  "workout code = None \<longleftrightarrow> code \<notin> {ascii ''SWM'', ascii ''RUN'', ascii ''WLK''}"
  by (simp add: workout_def)

lemma workout_codes:
  "workout (ascii ''SWM'') = Some Swimming_class"
  "workout (ascii ''RUN'') = Some Running_class"
  "workout (ascii ''WLK'') = Some SportsWalking_class"
  by (simp_all add: workout_def ascii_def)

lemma read_package_known:
  "workout code = Some cls \<Longrightarrow> read_package code data = construct cls data"
  by (simp add: read_package_def)

lemma read_package_unknown:
  "workout code = None \<Longrightarrow>
   read_package code data = Inl (ValueError (txt_unknown_pre @ code @ txt_unknown_post))"
  by (simp add: read_package_def)

lemma construct_not_ValueError: "construct cls data \<noteq> Inl (ValueError msg)"
  by (cases "(cls, data)" rule: construct.cases) simp_all

lemma construct_arity_Running:
  "length data \<noteq> 3 \<Longrightarrow> construct Running_class data = Inl TypeError"
  by (cases "(Running_class, data)" rule: construct.cases) simp_all

lemma construct_arity_SportsWalking:
  "length data \<noteq> 4 \<Longrightarrow> construct SportsWalking_class data = Inl TypeError"
  by (cases "(SportsWalking_class, data)" rule: construct.cases) simp_all

lemma construct_arity_Swimming:
  "length data \<noteq> 5 \<Longrightarrow> construct Swimming_class data = Inl TypeError"
  by (cases "(Swimming_class, data)" rule: construct.cases) simp_all

lemmas construct_arity =
  construct_arity_Running construct_arity_SportsWalking construct_arity_Swimming

text \<open>
  Claim C4, as stated, fails: the code \<^verbatim>\<open>RUN\<close> is one of the three, and with an empty
  list of values \<open>read_package\<close> returns no instance but raises the arity error.
\<close>

theorem read_package_arity_counterexample:
  "ascii ''RUN'' \<in> {ascii ''SWM'', ascii ''RUN'', ascii ''WLK''}
   \<and> read_package (ascii ''RUN'') [] = Inl TypeError"
  by (simp add: read_package_known [OF workout_codes(2)])

text \<open>
  Claim C4, amended. \<open>read_package\<close> fails with the ValueError, whose text carries the
  offending code, if and only if the code is not one of SWM, RUN and WLK. For one of
  the three codes and as many values as the mapped variant has fields (five, three and
  four), it returns an instance of that variant with the values bound to the fields
  in declaration order; with any other number of values it fails with TypeError. In
  particular SWM with [720, 1, 80, 25, 40] gives a Swimming instance with pool length 25
  and pool count 40, and XYZ with no values fails with the ValueError.
\<close>

theorem read_package_dispatch:
  "((\<exists>msg. read_package code data = Inl (ValueError msg))
      \<longleftrightarrow> code \<notin> {ascii ''SWM'', ascii ''RUN'', ascii ''WLK''})
   \<and> (code \<notin> {ascii ''SWM'', ascii ''RUN'', ascii ''WLK''} \<longrightarrow>
        read_package code data
          = Inl (ValueError (txt_unknown_pre @ code @ txt_unknown_post)))
   \<and> read_package (ascii ''RUN'') [a, d, w] = Inr (Running a d w)
   \<and> read_package (ascii ''WLK'') [a, d, w, h] = Inr (SportsWalking a d w h)
   \<and> read_package (ascii ''SWM'') [a, d, w, l, c] = Inr (Swimming a d w l c)
   \<and> (length data \<noteq> 3 \<longrightarrow> read_package (ascii ''RUN'') data = Inl TypeError)
   \<and> (length data \<noteq> 4 \<longrightarrow> read_package (ascii ''WLK'') data = Inl TypeError)
   \<and> (length data \<noteq> 5 \<longrightarrow> read_package (ascii ''SWM'') data = Inl TypeError)
   \<and> read_package (ascii ''SWM'') [720, 1, 80, 25, 40] = Inr (Swimming 720 1 80 25 40)
   \<and> training.length_pool (Swimming 720 1 80 25 40) = 25
   \<and> training.count_pool (Swimming 720 1 80 25 40) = 40
   \<and> read_package (ascii ''XYZ'') []
        = Inl (ValueError (txt_unknown_pre @ ascii ''XYZ'' @ txt_unknown_post))"
proof -
  have iff: "(\<exists>msg. read_package code data = Inl (ValueError msg))
      \<longleftrightarrow> code \<notin> {ascii ''SWM'', ascii ''RUN'', ascii ''WLK''}"
  proof (cases "workout code")
    case None
    then show ?thesis
      using read_package_unknown [OF None, of data] workout_None [of code] by blast
  next
    case (Some cls)
    then have "read_package code data = construct cls data"
      by (rule read_package_known)
    then have "\<not> (\<exists>msg. read_package code data = Inl (ValueError msg))"
      by (simp add: construct_not_ValueError)
    moreover have "\<not> code \<notin> {ascii ''SWM'', ascii ''RUN'', ascii ''WLK''}"
      using Some workout_None [of code] by simp
    ultimately show ?thesis
      by blast
  qed
  have unk: "read_package code data
        = Inl (ValueError (txt_unknown_pre @ code @ txt_unknown_post))"
    if "code \<notin> {ascii ''SWM'', ascii ''RUN'', ascii ''WLK''}"
    using that workout_None [of code] read_package_unknown by blast
  have xyz: "read_package (ascii ''XYZ'') []
        = Inl (ValueError (txt_unknown_pre @ ascii ''XYZ'' @ txt_unknown_post))"
    by (rule read_package_unknown) (simp add: workout_def ascii_def)
  have run: "read_package (ascii ''RUN'') xs = construct Running_class xs" for xs
    by (rule read_package_known [OF workout_codes(2)])
  have wlk: "read_package (ascii ''WLK'') xs = construct SportsWalking_class xs" for xs
    by (rule read_package_known [OF workout_codes(3)])
  have swm: "read_package (ascii ''SWM'') xs = construct Swimming_class xs" for xs
    by (rule read_package_known [OF workout_codes(1)])
  show ?thesis
    using iff unk xyz by (simp add: run wlk swm construct_arity)
qed

text \<open>
  The theorem at the unknown code XYZ and at the codes RUN, WLK and SWM with two
  values, which is the number of fields of none of the variants.
\<close>

theorem read_package_dispatch_witness:
  "ascii ''XYZ'' \<notin> {ascii ''SWM'', ascii ''RUN'', ascii ''WLK''}
   \<and> read_package (ascii ''XYZ'') [1, 2]
        = Inl (ValueError (txt_unknown_pre @ ascii ''XYZ'' @ txt_unknown_post))
   \<and> length [1, 2 :: real] \<noteq> 3 \<and> length [1, 2 :: real] \<noteq> 4 \<and> length [1, 2 :: real] \<noteq> 5
   \<and> read_package (ascii ''RUN'') [1, 2] = Inl TypeError
   \<and> read_package (ascii ''WLK'') [1, 2] = Inl TypeError
   \<and> read_package (ascii ''SWM'') [1, 2] = Inl TypeError
   \<and> read_package (ascii ''RUN'') [15000, 1, 75] = Inr (Running 15000 1 75)"
proof -
  have x: "ascii ''XYZ'' \<notin> {ascii ''SWM'', ascii ''RUN'', ascii ''WLK''}"
    by (simp add: ascii_def)
  show ?thesis
    using x read_package_dispatch [of "ascii ''XYZ''" "[1, 2]"]
      read_package_dispatch [of "ascii ''RUN''" "[1, 2]" 15000 1 75]
    by simp
qed

section \<open>The sample run, end to end\<close>

lemma format_3f_samples:
  "format_3f 1 = ascii ''1.000''"
  "format_3f 699.75 = ascii ''699.750''"
  by (simp_all add: format_3f_def round_half_even_def ascii_def digit_def last3_def
      str_nat_small str_nat_large)

lemma show_training_info_sample_run:
  "show_training_info (Running 15000 1 75) =
     Inr (InfoMessage_init (ascii ''Running'') 1 9.75 9.75 699.75)"
proof -
  have ms: "get_mean_speed (Running 15000 1 75) = Inr 9.75"
    using mean_speed_Running [of 1 15000 75] by simp
  have "show_training_info (Running 15000 1 75) =
        Inr (InfoMessage_init (class_name (Running 15000 1 75))
               (training.duration (Running 15000 1 75)) (get_distance (Running 15000 1 75))
               9.75 ((18 * 9.75 - 20) * 75 / 1000 * 1 * 60))"
    using ms calories_Running [OF ms] by (rule show_training_info_ok)
  then show ?thesis
    by (simp add: get_distance_def M_IN_KM_def)
qed

lemma run_package_sample_run:
  "run_package (ascii ''RUN'') [15000, 1, 75] [] =
     Inr [txt_type @ ascii ''Running'' @ txt_duration @ ascii ''1.000'' @ txt_distance
          @ ascii ''9.750'' @ txt_speed @ ascii ''9.750'' @ txt_calories
          @ ascii ''699.750'' @ ascii ''.'']"
proof -
  have rp: "read_package (ascii ''RUN'') [15000, 1, 75] = Inr (Running 15000 1 75)"
    by (simp add: read_package_known [OF workout_codes(2)])
  show ?thesis
    by (simp only: run_package_def main_def rp show_training_info_sample_run
        get_message_default format_3f_samples format_3f_example sum.case append_Nil)
qed

lemma sample_line_split:
  "txt_type @ ascii ''Running'' @ txt_duration @ ascii ''1.000'' @ txt_distance
     @ ascii ''9.750'' @ txt_speed @ ascii ''9.750'' @ txt_calories @ cal @ ascii ''.''
   = (txt_type @ ascii ''Running'' @ take 2 txt_duration) @ expected_summary cal @ []"
proof -
  have "txt_duration = take 2 txt_duration @ drop 2 txt_duration"
    by simp
  then have "txt_duration @ r = take 2 txt_duration @ drop 2 txt_duration @ r" for r
    by (metis append.assoc)
  then show ?thesis
    by (simp add: expected_summary_def)
qed

text \<open>
  Claim C1, as stated, fails on the calories: the pipeline computes 699.75, which is
  not 700.65 to two decimals, and the line it prints does not contain the quoted text
  ending in "700.650.".
\<close>

theorem sample_run_calories_counterexample:
  "get_spent_calories (Running 15000 1 75) = Inr 699.75
   \<and> \<not> \<bar>(699.75::real) - 700.65\<bar> \<le> 0.005
   \<and> run_package (ascii ''RUN'') [15000, 1, 75] [] =
       Inr [txt_type @ ascii ''Running'' @ txt_duration @ ascii ''1.000'' @ txt_distance
            @ ascii ''9.750'' @ txt_speed @ ascii ''9.750'' @ txt_calories
            @ ascii ''699.750'' @ ascii ''.'']
   \<and> \<not> sublist (expected_summary (ascii ''700.650''))
         (txt_type @ ascii ''Running'' @ txt_duration @ ascii ''1.000'' @ txt_distance
            @ ascii ''9.750'' @ txt_speed @ ascii ''9.750'' @ txt_calories
            @ ascii ''699.750'' @ ascii ''.'')"
proof -
  have cal: "get_spent_calories (Running 15000 1 75) = Inr 699.75"
    using calories_Running [OF mean_speed_Running, of 1 15000 75] by simp
  have far: "\<not> \<bar>(699.75::real) - 700.65\<bar> \<le> 0.005"
    by simp
  have no: "\<not> sublist (expected_summary (ascii ''700.650''))
         (txt_type @ ascii ''Running'' @ txt_duration @ ascii ''1.000'' @ txt_distance
            @ ascii ''9.750'' @ txt_speed @ ascii ''9.750'' @ txt_calories
            @ ascii ''699.750'' @ ascii ''.'')"
    by (simp add: expected_summary_def txt_type_def txt_duration_def txt_distance_def
        txt_speed_def txt_calories_def ascii_def sublist_Cons_right)
  show ?thesis
    using cal far run_package_sample_run no by blast
qed

text \<open>
  Claim C1, amended. For the input ('RUN', [15000, 1, 75]) the pipeline produces the
  distance 9.750 km, the mean speed 9.750 km/h and the calories 699.75, and the line it
  prints contains "Dlitel'nost': 1.000 ch.; Distantsiya: 9.750 km; Sr. skorost': 9.750
  km/ch; Potracheno kkal: 699.750.".
\<close>

theorem sample_run_end_to_end:
  "read_package (ascii ''RUN'') [15000, 1, 75] = Inr (Running 15000 1 75)
   \<and> get_distance (Running 15000 1 75) = 9.75
   \<and> get_mean_speed (Running 15000 1 75) = Inr 9.75
   \<and> get_spent_calories (Running 15000 1 75) = Inr 699.75
   \<and> run_package (ascii ''RUN'') [15000, 1, 75] [] =
       Inr [txt_type @ ascii ''Running'' @ txt_duration @ ascii ''1.000'' @ txt_distance
            @ ascii ''9.750'' @ txt_speed @ ascii ''9.750'' @ txt_calories
            @ ascii ''699.750'' @ ascii ''.'']
   \<and> sublist (expected_summary (ascii ''699.750''))
         (txt_type @ ascii ''Running'' @ txt_duration @ ascii ''1.000'' @ txt_distance
            @ ascii ''9.750'' @ txt_speed @ ascii ''9.750'' @ txt_calories
            @ ascii ''699.750'' @ ascii ''.'')"
proof -
  have rp: "read_package (ascii ''RUN'') [15000, 1, 75] = Inr (Running 15000 1 75)"
    by (simp add: read_package_known [OF workout_codes(2)])
  have di: "get_distance (Running 15000 1 75) = 9.75"
    by (simp add: get_distance_def M_IN_KM_def)
  have ms: "get_mean_speed (Running 15000 1 75) = Inr 9.75"
    using mean_speed_Running [of 1 15000 75] by simp
  have cal: "get_spent_calories (Running 15000 1 75) = Inr 699.75"
    using calories_Running [OF ms] by simp
  have sub: "sublist (expected_summary (ascii ''699.750''))
         (txt_type @ ascii ''Running'' @ txt_duration @ ascii ''1.000'' @ txt_distance
            @ ascii ''9.750'' @ txt_speed @ ascii ''9.750'' @ txt_calories
            @ ascii ''699.750'' @ ascii ''.'')"
    unfolding sample_line_split by (rule sublist_appendI)
  show ?thesis
    using rp di ms cal run_package_sample_run sub by blast
qed

section \<open>Calories and weight\<close>

text \<open>
  Claim C2, as stated, fails. A slow run of 1000 steps in one hour has the mean speed
  0.65 km/h whatever the weight, and raising the weight from 70 to 80 lowers the
  calories from -34.86 to -39.84. A swim with a mean speed below -1.1, from a negative
  pool length, behaves the same way.
\<close>

theorem calories_weight_counterexample:
  "(70::real) \<le> 80
   \<and> get_mean_speed (Running 1000 1 70) = Inr 0.65
   \<and> get_mean_speed (Running 1000 1 80) = Inr 0.65
   \<and> get_spent_calories (Running 1000 1 70) = Inr (- 34.86)
   \<and> get_spent_calories (Running 1000 1 80) = Inr (- 39.84)
   \<and> (- 39.84::real) < - 34.86
   \<and> get_mean_speed (Swimming 720 1 70 (- 50) 40) = Inr (- 2)
   \<and> get_mean_speed (Swimming 720 1 80 (- 50) 40) = Inr (- 2)
   \<and> get_spent_calories (Swimming 720 1 70 (- 50) 40) = Inr (- 126)
   \<and> get_spent_calories (Swimming 720 1 80 (- 50) 40) = Inr (- 144)
   \<and> (- 144::real) < - 126"
proof -
  have r1: "get_mean_speed (Running 1000 1 70) = Inr 0.65"
    using mean_speed_Running [of 1 1000 70] by simp
  have r2: "get_mean_speed (Running 1000 1 80) = Inr 0.65"
    using mean_speed_Running [of 1 1000 80] by simp
  have s1: "get_mean_speed (Swimming 720 1 70 (- 50) 40) = Inr (- 2)"
    using mean_speed_Swimming [of 1 720 70 "- 50" 40] by simp
  have s2: "get_mean_speed (Swimming 720 1 80 (- 50) 40) = Inr (- 2)"
    using mean_speed_Swimming [of 1 720 80 "- 50" 40] by simp
  show ?thesis
    using r1 r2 s1 s2 calories_Running [OF r1] calories_Running [OF r2]
      calories_Swimming [OF s1] calories_Swimming [OF s2]
    by simp
qed

text \<open>
  Claim C2, amended. Changing only the weight leaves the mean speed unchanged. For a
  Running instance whose mean speed \<open>v\<close> and duration \<open>d\<close> satisfy
  \<open>0 \<le> (18 * v - 20) * d\<close> (a mean speed of at least 20/18 km/h over a positive
  duration), and for a Swimming instance whose mean speed is at least -1.1 (any
  non-negative speed), a larger weight does not give fewer calories.
\<close>

theorem calories_monotone_in_weight:
  assumes "w \<le> w'"
  shows "get_mean_speed (Running a d w) = get_mean_speed (Running a d w')
   \<and> (get_mean_speed (Running a d w) = Inr v \<and> 0 \<le> (18 * v - 20) * d \<longrightarrow>
        (\<exists>k k'. get_spent_calories (Running a d w) = Inr k
           \<and> get_spent_calories (Running a d w') = Inr k' \<and> k \<le> k'))
   \<and> get_mean_speed (Swimming b e w l c) = get_mean_speed (Swimming b e w' l c)
   \<and> (get_mean_speed (Swimming b e w l c) = Inr u \<and> 0 \<le> u + 1.1 \<longrightarrow>
        (\<exists>k k'. get_spent_calories (Swimming b e w l c) = Inr k
           \<and> get_spent_calories (Swimming b e w' l c) = Inr k' \<and> k \<le> k'))"
proof -
  have rs: "get_mean_speed (Running a d w) = get_mean_speed (Running a d w')"
    by (simp add: get_distance_def)
  have ss: "get_mean_speed (Swimming b e w l c) = get_mean_speed (Swimming b e w' l c)"
    by simp
  have run: "\<exists>k k'. get_spent_calories (Running a d w) = Inr k
           \<and> get_spent_calories (Running a d w') = Inr k' \<and> k \<le> k'"
    if ms: "get_mean_speed (Running a d w) = Inr v" and pos: "0 \<le> (18 * v - 20) * d"
  proof -
    have ms': "get_mean_speed (Running a d w') = Inr v"
      using ms rs by simp
    have "((18 * v - 20) * d) * w \<le> ((18 * v - 20) * d) * w'"
      using assms pos by (rule mult_left_mono)
    then have "((18 * v - 20) * d) * w * (60 / 1000) \<le> ((18 * v - 20) * d) * w' * (60 / 1000)"
      by (rule mult_right_mono) simp
    moreover have "(18 * v - 20) * x / 1000 * d * 60 = ((18 * v - 20) * d) * x * (60 / 1000)"
      for x
      by (simp add: field_simps)
    ultimately have "(18 * v - 20) * w / 1000 * d * 60 \<le> (18 * v - 20) * w' / 1000 * d * 60"
      by (simp only:)
    then show ?thesis
      using calories_Running [OF ms] calories_Running [OF ms'] by blast
  qed
  have swim: "\<exists>k k'. get_spent_calories (Swimming b e w l c) = Inr k
           \<and> get_spent_calories (Swimming b e w' l c) = Inr k' \<and> k \<le> k'"
    if ms: "get_mean_speed (Swimming b e w l c) = Inr u" and pos: "0 \<le> u + 1.1"
  proof -
    have ms': "get_mean_speed (Swimming b e w' l c) = Inr u"
      using ms ss by simp
    have "0 \<le> (u + 1.1) * 2"
      using pos by simp
    then have "(u + 1.1) * 2 * w \<le> (u + 1.1) * 2 * w'"
      using assms by (simp only: mult_left_mono)
    then show ?thesis
      using calories_Swimming [OF ms] calories_Swimming [OF ms'] by blast
  qed
  show ?thesis
    using rs ss run swim by blast
qed

text \<open>
  The sample run at 75 and 80 kg, 699.75 and 746.4 kcal, and the sample swim at 80 and
  90 kg, 336 and 378 kcal.
\<close>

theorem calories_monotone_in_weight_witness:
  "(75::real) \<le> 80
   \<and> get_mean_speed (Running 15000 1 75) = Inr 9.75 \<and> (0::real) \<le> (18 * 9.75 - 20) * 1
   \<and> get_spent_calories (Running 15000 1 75) = Inr 699.75
   \<and> get_spent_calories (Running 15000 1 80) = Inr 746.4
   \<and> (\<exists>k k'. get_spent_calories (Running 15000 1 75) = Inr k
         \<and> get_spent_calories (Running 15000 1 80) = Inr k' \<and> k \<le> k')
   \<and> (80::real) \<le> 90
   \<and> get_mean_speed (Swimming 720 1 80 25 40) = Inr 1 \<and> (0::real) \<le> 1 + 1.1
   \<and> (\<exists>k k'. get_spent_calories (Swimming 720 1 80 25 40) = Inr k
         \<and> get_spent_calories (Swimming 720 1 90 25 40) = Inr k' \<and> k \<le> k')"
proof -
  have r: "get_mean_speed (Running 15000 1 75) = Inr 9.75"
    using mean_speed_Running [of 1 15000 75] by simp
  have r': "get_mean_speed (Running 15000 1 80) = Inr 9.75"
    using mean_speed_Running [of 1 15000 80] by simp
  have s: "get_mean_speed (Swimming 720 1 80 25 40) = Inr 1"
    using mean_speed_Swimming [of 1 720 80 25 40] by simp
  have c1: "get_spent_calories (Running 15000 1 75) = Inr 699.75"
    using calories_Running [OF r] by simp
  have c2: "get_spent_calories (Running 15000 1 80) = Inr 746.4"
    using calories_Running [OF r'] by simp
  have le1: "(75::real) \<le> 80" and le2: "(80::real) \<le> 90"
    by simp_all
  have p1: "(0::real) \<le> (18 * 9.75 - 20) * 1" and p2: "(0::real) \<le> 1 + 1.1"
    by simp_all
  have t1: "\<exists>k k'. get_spent_calories (Running 15000 1 75) = Inr k
         \<and> get_spent_calories (Running 15000 1 80) = Inr k' \<and> k \<le> k'"
    using calories_monotone_in_weight [OF le1, of 15000 1 "9.75"] r p1 by blast
  have t2: "\<exists>k k'. get_spent_calories (Swimming 720 1 80 25 40) = Inr k
         \<and> get_spent_calories (Swimming 720 1 90 25 40) = Inr k' \<and> k \<le> k'"
    using calories_monotone_in_weight [OF le2, where b = 720 and e = 1 and l = 25
        and c = 40 and u = 1] s p2 by blast
  show ?thesis
    using le1 le2 r s p1 p2 c1 c2 t1 t2 by blast
qed

section \<open>The three sample packages\<close>

lemma main_line:
  "show_training_info t = Inr info \<Longrightarrow> main t out = Inr (out @ [get_message info])"
  by (simp add: main_def)

lemma format_3f_more_samples:
  "format_3f 0.9936 = ascii ''0.994''"
  "format_3f 336 = ascii ''336.000''"
  "format_3f 5.85 = ascii ''5.850''"
  "format_3f 157.5 = ascii ''157.500''"
  by (simp_all add: format_3f_def round_half_even_def ascii_def digit_def last3_def
      str_nat_small str_nat_large)

lemma show_training_info_sample_swim:
  "show_training_info (Swimming 720 1 80 25 40) =
     Inr (InfoMessage_init (ascii ''Swimming'') 1 0.9936 1 336)"
proof -
  have ms: "get_mean_speed (Swimming 720 1 80 25 40) = Inr 1"
    using mean_speed_Swimming [of 1 720 80 25 40] by simp
  have cal: "get_spent_calories (Swimming 720 1 80 25 40) = Inr 336"
    using calories_Swimming [OF ms] by simp
  have "show_training_info (Swimming 720 1 80 25 40) =
        Inr (InfoMessage_init (class_name (Swimming 720 1 80 25 40))
               (training.duration (Swimming 720 1 80 25 40))
               (get_distance (Swimming 720 1 80 25 40)) 1 336)"
    using ms cal by (rule show_training_info_ok)
  then show ?thesis
    by (simp add: get_distance_def M_IN_KM_def)
qed

lemma show_training_info_sample_walk:
  "show_training_info (SportsWalking 9000 1 75 180) =
     Inr (InfoMessage_init (ascii ''SportsWalking'') 1 5.85 5.85 157.5)"
proof -
  have fl: "\<lfloor>(5.85::real) ^ 2 / 180\<rfloor> = 0"
    by (simp add: power2_eq_square floor_eq_iff)
  have ms: "get_mean_speed (SportsWalking 9000 1 75 180) = Inr 5.85"
    using mean_speed_SportsWalking [of 1 9000 75 180] by simp
  have cal: "get_spent_calories (SportsWalking 9000 1 75 180) = Inr 157.5"
    using calories_SportsWalking [OF ms] fl by simp
  have "show_training_info (SportsWalking 9000 1 75 180) =
        Inr (InfoMessage_init (class_name (SportsWalking 9000 1 75 180))
               (training.duration (SportsWalking 9000 1 75 180))
               (get_distance (SportsWalking 9000 1 75 180)) 5.85 157.5)"
    using ms cal by (rule show_training_info_ok)
  then show ?thesis
    by (simp add: get_distance_def M_IN_KM_def)
qed

text \<open>
  The run of the module prints three lines, with the calories 336.000, 699.750 and
  157.500.
\<close>

lemma run_packages_sample:
  "run_packages packages [] =
     Inr [txt_type @ ascii ''Swimming'' @ txt_duration @ ascii ''1.000'' @ txt_distance
            @ ascii ''0.994'' @ txt_speed @ ascii ''1.000'' @ txt_calories
            @ ascii ''336.000'' @ ascii ''.'',
          txt_type @ ascii ''Running'' @ txt_duration @ ascii ''1.000'' @ txt_distance
            @ ascii ''9.750'' @ txt_speed @ ascii ''9.750'' @ txt_calories
            @ ascii ''699.750'' @ ascii ''.'',
          txt_type @ ascii ''SportsWalking'' @ txt_duration @ ascii ''1.000''
            @ txt_distance @ ascii ''5.850'' @ txt_speed @ ascii ''5.850'' @ txt_calories
            @ ascii ''157.500'' @ ascii ''.'']"
proof -
  have swm: "read_package (ascii ''SWM'') [720, 1, 80, 25, 40] = Inr (Swimming 720 1 80 25 40)"
    by (simp add: read_package_known [OF workout_codes(1)])
  have run: "read_package (ascii ''RUN'') [15000, 1, 75] = Inr (Running 15000 1 75)"
    by (simp add: read_package_known [OF workout_codes(2)])
  have wlk: "read_package (ascii ''WLK'') [9000, 1, 75, 180] = Inr (SportsWalking 9000 1 75 180)"
    by (simp add: read_package_known [OF workout_codes(3)])
  show ?thesis
    by (simp only: packages_def run_packages.simps run_package_def swm run wlk sum.case
        main_line [OF show_training_info_sample_swim]
        main_line [OF show_training_info_sample_run]
        main_line [OF show_training_info_sample_walk]
        get_message_default format_3f_samples format_3f_more_samples format_3f_example
        append_Nil append_Cons)
qed

section \<open>Facts about binary64 rounding\<close>

lemma bitlen_0: "bitlen 0 = 0"
  by (simp add: bitlen.simps)

lemma bitlen_pos: "0 < n \<Longrightarrow> bitlen n = Suc (bitlen (n div 2))"
  by (subst bitlen.simps) simp

lemma bitlen_bounds: "0 < n \<Longrightarrow> 2 ^ (bitlen n - 1) \<le> n \<and> n < 2 ^ bitlen n"
proof (induction n rule: bitlen.induct)
  case (1 n)
  show ?case
  proof (cases "n div 2 = 0")
    case True
    with 1(2) have "n = 1"
      by (simp add: div_eq_0_iff) 
    then show ?thesis
      by (simp add: bitlen_pos bitlen_0)
  next
    case False
    then have pos: "0 < n div 2"
      by simp
    then have ih: "2 ^ (bitlen (n div 2) - 1) \<le> n div 2" "n div 2 < 2 ^ bitlen (n div 2)"
      using 1 by simp_all
    have bl: "bitlen n = Suc (bitlen (n div 2))"
      using 1(2) by (rule bitlen_pos)
    have bp: "0 < bitlen (n div 2)"
      using pos by (simp add: bitlen_pos)
    then have p2: "(2::nat) ^ bitlen (n div 2) = 2 * 2 ^ (bitlen (n div 2) - 1)"
      by (cases "bitlen (n div 2)") simp_all
    have d2: "2 * (n div 2) \<le> n" and d2': "n < 2 * (n div 2) + 2"
      by simp_all
    have "(2::nat) ^ (bitlen n - 1) = 2 ^ bitlen (n div 2)"
      using bl by simp
    also have "\<dots> \<le> 2 * (n div 2)"
      using ih(1) p2 by simp
    finally have lo: "2 ^ (bitlen n - 1) \<le> n"
      using d2 by (rule order_trans)
    have "2 * (n div 2) + 2 \<le> 2 * 2 ^ bitlen (n div 2)"
      using ih(2) by simp
    then have hi: "n < 2 ^ bitlen n"
      using d2' bl by simp
    show ?thesis
      using lo hi by simp
  qed
qed

lemma bitlen_gt0: "0 < n \<Longrightarrow> 0 < bitlen n"
  by (simp add: bitlen_pos)

lemma real_pow2_le: "(2::nat) ^ j \<le> n \<Longrightarrow> (2::real) ^ j \<le> real n"
proof -
  assume "(2::nat) ^ j \<le> n"
  then have "real ((2::nat) ^ j) \<le> real n"
    by (simp only: of_nat_le_iff)
  then show ?thesis
    by simp
qed

lemma real_pow2_gt: "n < (2::nat) ^ j \<Longrightarrow> real n + 1 \<le> (2::real) ^ j"
proof -
  assume "n < (2::nat) ^ j"
  then have "Suc n \<le> 2 ^ j"
    by simp
  then have "real (Suc n) \<le> real ((2::nat) ^ j)"
    by (simp only: of_nat_le_iff)
  then show ?thesis
    by simp
qed

lemma expo_bounds:
  assumes "x \<noteq> 0"
  shows "2 powi (expo x) \<le> \<bar>x\<bar>" and "\<bar>x\<bar> < 2 powi (expo x + 1)"
proof -
  have "2 powi (expo x) \<le> \<bar>x\<bar> \<and> \<bar>x\<bar> < 2 powi (expo x + 1)"
  proof (cases "1 \<le> \<bar>x\<bar>")
    case True
    define n where "n = nat \<lfloor>\<bar>x\<bar>\<rfloor>"
    have npos: "0 < n"
      using True by (simp add: n_def)
    have nle: "real n \<le> \<bar>x\<bar>" and nlt: "\<bar>x\<bar> < real n + 1"
      using True unfolding n_def by linarith+
    note b = bitlen_bounds [OF npos]
    have e: "expo x = int (bitlen n) - 1"
      using True by (simp add: expo_def n_def)
    have k: "int (bitlen n) - 1 = int (bitlen n - 1)"
      using bitlen_gt0 [OF npos] by simp
    have "(2::real) ^ (bitlen n - 1) \<le> real n"
      using b by (simp add: real_pow2_le)
    then have "(2::real) ^ (bitlen n - 1) \<le> \<bar>x\<bar>"
      using nle by (rule order_trans)
    moreover have "(2::real) powi (expo x) = 2 ^ (bitlen n - 1)"
      unfolding e k by (rule power_int_of_nat)
    ultimately have lo: "2 powi (expo x) \<le> \<bar>x\<bar>"
      by simp
    have "real n + 1 \<le> 2 ^ bitlen n"
      using b by (simp add: real_pow2_gt)
    with nlt have "\<bar>x\<bar> < 2 ^ bitlen n"
      by linarith
    moreover have "(2::real) powi (expo x + 1) = 2 ^ bitlen n"
      unfolding e by simp
    ultimately have hi: "\<bar>x\<bar> < 2 powi (expo x + 1)"
      by simp
    show ?thesis
      using lo hi by simp
  next
    case False
    define y where "y = 1 / \<bar>x\<bar>"
    have xpos: "0 < \<bar>x\<bar>"
      using assms by simp
    have y1: "1 < y"
      using False xpos by (simp add: y_def)
    define n where "n = nat (\<lceil>y\<rceil> - 1)"
    have c2: "2 \<le> \<lceil>y\<rceil>"
      using y1 by linarith
    then have npos: "0 < n"
      by (simp add: n_def)
    have nlt: "real n < y" and nge: "y \<le> real n + 1"
      using c2 unfolding n_def by linarith+
    note b = bitlen_bounds [OF npos]
    define k where "k = bitlen n"
    have kpos: "0 < k"
      unfolding k_def using npos by (rule bitlen_gt0)
    have e: "expo x = - int k"
      using False by (simp add: expo_def n_def y_def k_def)
    have "(2::real) ^ (k - 1) \<le> real n"
      using b unfolding k_def by (simp add: real_pow2_le)
    with nlt have ylo: "2 ^ (k - 1) < y"
      by linarith
    have "real n + 1 \<le> 2 ^ k"
      using b unfolding k_def by (simp add: real_pow2_gt)
    with nge have yhi: "y \<le> 2 ^ k"
      by linarith
    have xy: "\<bar>x\<bar> = 1 / y"
      using xpos by (simp add: y_def)
    have "1 / 2 ^ k \<le> 1 / y"
      using yhi y1 by (simp add: frac_le)
    then have lo: "2 powi (expo x) \<le> \<bar>x\<bar>"
      unfolding e xy by (simp add: power_int_minus divide_simps)
    have "1 / y < 1 / 2 ^ (k - 1)"
      using ylo by (simp add: frac_less2)
    moreover have "2 powi (- int k + 1) = 1 / (2::real) ^ (k - 1)"
    proof -
      have eq: "- int k + 1 = - int (k - 1)"
        using kpos by linarith
      have "2 powi (- int (k - 1)) = inverse ((2::real) powi int (k - 1))"
        by (rule power_int_minus)
      then show ?thesis
        unfolding eq by (simp only: power_int_of_nat inverse_eq_divide)
    qed
    ultimately have hi: "\<bar>x\<bar> < 2 powi (expo x + 1)"
      unfolding e xy by simp
    show ?thesis
      using lo hi by simp
  qed
  then show "2 powi (expo x) \<le> \<bar>x\<bar>" and "\<bar>x\<bar> < 2 powi (expo x + 1)"
    by simp_all
qed

lemma powi_le_nonzero:
  assumes "2 powi e \<le> \<bar>x::real\<bar>"
  shows "x \<noteq> 0"
proof
  assume "x = 0"
  with assms have "(2::real) powi e \<le> 0"
    by simp
  moreover have "0 < (2::real) powi e"
    by (rule zero_less_power_int) simp
  ultimately show False
    by linarith
qed

lemma expo_unique:
  assumes "2 powi e \<le> \<bar>x\<bar>" and "\<bar>x\<bar> < 2 powi (e + 1)"
  shows "expo x = e"
proof -
  have x0: "x \<noteq> 0"
    using assms(1) by (rule powi_le_nonzero)
  note b = expo_bounds [OF x0]
  have lt1: "2 powi e < (2::real) powi (expo x + 1)"
    using assms(1) b(2) by (rule le_less_trans)
  have a: "e < expo x + 1"
  proof (rule ccontr)
    assume "\<not> e < expo x + 1"
    then have "expo x + 1 \<le> e"
      by simp
    then have "2 powi (expo x + 1) \<le> (2::real) powi e"
      by (rule power_int_increasing) simp
    with lt1 show False
      by linarith
  qed
  have lt2: "2 powi (expo x) < (2::real) powi (e + 1)"
    using b(1) assms(2) by (rule le_less_trans)
  have "expo x < e + 1"
  proof (rule ccontr)
    assume "\<not> expo x < e + 1"
    then have "e + 1 \<le> expo x"
      by simp
    then have "2 powi (e + 1) \<le> (2::real) powi (expo x)"
      by (rule power_int_increasing) simp
    with lt2 show False
      by linarith
  qed
  with a show ?thesis
    by simp
qed

lemma fl_0: "fl 0 = 0"
  by (simp add: fl_def)

lemma quantum_pos: "0 < quantum x"
  by (simp add: quantum_def)

lemma fl_near: "\<bar>fl x - x\<bar> \<le> quantum x / 2"
proof (cases "x = 0")
  case True
  then show ?thesis
    using quantum_pos [of x] by (simp add: fl_0)
next
  case False
  define q where "q = quantum x"
  have qpos: "0 < q"
    unfolding q_def by (rule quantum_pos)
  have "fl x - x = (real_of_int (round_half_even (x / q)) - x / q) * q"
    using False qpos by (simp add: fl_def q_def algebra_simps)
  then have "\<bar>fl x - x\<bar> = \<bar>real_of_int (round_half_even (x / q)) - x / q\<bar> * q"
    using qpos by (simp add: abs_mult)
  also have "\<dots> \<le> 1 / 2 * q"
    using round_half_even_near [of "x / q"] qpos by (intro mult_right_mono) simp_all
  finally show ?thesis
    by (simp add: q_def)
qed

lemma expo_normal:
  assumes "2 powi (- 1022) \<le> \<bar>x\<bar>"
  shows "- 1022 \<le> expo x"
proof (rule ccontr)
  assume "\<not> - 1022 \<le> expo x"
  then have "expo x + 1 \<le> - 1022"
    by simp
  then have "2 powi (expo x + 1) \<le> (2::real) powi (- 1022)"
    by (rule power_int_increasing) simp
  moreover have "x \<noteq> 0"
    using assms by (rule powi_le_nonzero)
  ultimately show False
    using expo_bounds(2) [of x] assms by linarith
qed

lemma quantum_normal:
  assumes "2 powi (- 1022) \<le> \<bar>x\<bar>"
  shows "quantum x = 2 powi (expo x - 52)" and "quantum x \<le> \<bar>x\<bar> / 2 ^ 52"
proof -
  have n: "- 1022 \<le> expo x"
    using assms by (rule expo_normal)
  then have "max (expo x - 52) (- 1074) = expo x - 52"
    by linarith
  then show q: "quantum x = 2 powi (expo x - 52)"
    by (simp only: quantum_def)
  have x0: "x \<noteq> 0"
    using assms by (rule powi_le_nonzero)
  have "(2::real) powi (expo x - 52) = 2 powi (expo x) * 2 powi (- 52)"
    using power_int_add [of "2::real" "expo x" "- 52"] by simp
  also have "\<dots> = 2 powi (expo x) / 2 ^ 52"
    by (simp add: power_int_minus divide_simps)
  also have "\<dots> \<le> \<bar>x\<bar> / 2 ^ 52"
    using expo_bounds(1) [OF x0] by (simp add: divide_right_mono)
  finally show "quantum x \<le> \<bar>x\<bar> / 2 ^ 52"
    unfolding q .
qed

lemma fl_rel_error:
  assumes "2 powi (- 1022) \<le> \<bar>x\<bar>"
  shows "\<bar>fl x - x\<bar> \<le> \<bar>x\<bar> / 2 ^ 53"
proof -
  have "\<bar>fl x - x\<bar> \<le> quantum x / 2"
    by (rule fl_near)
  also have "\<dots> \<le> (\<bar>x\<bar> / 2 ^ 52) / 2"
    using quantum_normal(2) [OF assms] by simp
  finally show ?thesis
    by simp
qed

lemma fl_eval:
  assumes "2 powi e \<le> \<bar>x\<bar>" and "\<bar>x\<bar> < 2 powi (e + 1)" and "- 1022 \<le> e"
  shows "fl x = real_of_int (round_half_even (x / 2 powi (e - 52))) * 2 powi (e - 52)"
proof -
  have e: "expo x = e"
    using assms(1,2) by (rule expo_unique)
  have x0: "x \<noteq> 0"
    using assms(1) by (rule powi_le_nonzero)
  have "max (e - 52) (- 1074) = e - 52"
    using assms(3) by linarith
  then have "quantum x = 2 powi (e - 52)"
    by (simp only: quantum_def e)
  then show ?thesis
    using x0 by (simp only: fl_def if_False)
qed

lemma finite_result_0: "finite_result err 0 = Inr 0"
  by (simp add: finite_result_def fl_0)

text \<open>
  Evaluating a rounding: with the binary exponent \<open>e\<close> of \<open>x\<close> at hand, the float is the
  rounded multiple of \<open>2 ^ (e - 52)\<close>.
\<close>

lemma finite_result_eval:
  assumes "2 powi e \<le> \<bar>x\<bar>" and "\<bar>x\<bar> < 2 powi (e + 1)" and "- 1022 \<le> e"
    and "real_of_int (round_half_even (x / 2 powi (e - 52))) * 2 powi (e - 52) = y"
    and "\<bar>y\<bar> < 2 ^ 1024"
  shows "finite_result err x = Inr y"
proof -
  have "fl x = y"
    using fl_eval [OF assms(1,2,3)] assms(4) by simp
  then show ?thesis
    using assms(5) by (simp add: finite_result_def)
qed


lemma and_then_Inr: "and_then (Inr v) f = f v"
  by (simp add: and_then_def)


lemma fdiv_nonzero: "y \<noteq> 0 \<Longrightarrow> fdiv x y = finite_result NotFinite (x / y)"
  by (simp add: fdiv_def)


section \<open>Values of the binary64 operations at the sample inputs\<close>

lemma fl_0_65:
  "fl 0.65 = (5854679515581645 / 2 ^ 53)"
  by (subst fl_eval [where e = "- 1"]) (simp_all add: round_half_even_def)

lemma fl_1_38:
  "fl 1.38 = (1553741871442821 / 2 ^ 50)"
  by (subst fl_eval [where e = 0]) (simp_all add: round_half_even_def)




lemma c6_a:
  "to_float 11873189 = Inr 11873189"
  unfolding to_float_def
  by (rule finite_result_eval [where e = 23]) (simp_all add: round_half_even_def)

lemma c6_x:
  "fmul 11873189 (1553741871442821 / 2 ^ 50) = Inr (8796630333354147 / 2 ^ 29)"
  unfolding fmul_def
  by (rule finite_result_eval [where e = 23]) (simp_all add: round_half_even_def)

lemma c6_d:
  "fdiv (8796630333354147 / 2 ^ 29) 1000 = Inr (4503874730677323 / 2 ^ 38)"
  by (subst fdiv_nonzero, simp, rule finite_result_eval [where e = 14])
     (simp_all add: round_half_even_def)

lemma c6_z:
  "fmul (4503874730677323 / 2 ^ 38) 1000 = Inr (4398315166677073 / 2 ^ 28)"
  unfolding fmul_def
  by (rule finite_result_eval [where e = 23]) (simp_all add: round_half_even_def)

lemma c6w_a:
  "to_float 15000 = Inr 15000"
  unfolding to_float_def
  by (rule finite_result_eval [where e = 13]) (simp_all add: round_half_even_def)

lemma c6w_x:
  "fmul 15000 (5854679515581645 / 2 ^ 53) = Inr 9750"
  unfolding fmul_def
  by (rule finite_result_eval [where e = 13]) (simp_all add: round_half_even_def)

lemma c6w_d:
  "fdiv 9750 1000 = Inr (39 / 2 ^ 2)"
  by (subst fdiv_nonzero, simp, rule finite_result_eval [where e = 3])
     (simp_all add: round_half_even_def)

lemma c6w_z:
  "fmul (39 / 2 ^ 2) 1000 = Inr 9750"
  unfolding fmul_def
  by (rule finite_result_eval [where e = 13]) (simp_all add: round_half_even_def)






























lemma run_prod:
  "fmul (39 / 2 ^ 2) 1 = Inr (39 / 2 ^ 2)"
  unfolding fmul_def
  by (rule finite_result_eval [where e = 3]) (simp_all add: round_half_even_def)






































lemma walk_prod:
  "fmul (8782019273372467 / 2 ^ 51) 1 = Inr (8782019273372467 / 2 ^ 51)"
  unfolding fmul_def
  by (rule finite_result_eval [where e = 1]) (simp_all add: round_half_even_def)
















section \<open>Distance and step length in binary64\<close>

lemma fl_rel_error_num:
  assumes "2 powi (- 1022) \<le> \<bar>x\<bar>"
  shows "\<bar>fl x - x\<bar> \<le> \<bar>x\<bar> / 9007199254740992"
  using fl_rel_error [OF assms] by simp

lemma fl_rel_error_bound:
  assumes "2 powi (- 1022) \<le> \<bar>x\<bar>" and "\<bar>x\<bar> \<le> b"
  shows "\<bar>fl x - x\<bar> \<le> b / 9007199254740992"
proof -
  have "\<bar>fl x - x\<bar> \<le> \<bar>x\<bar> / 9007199254740992"
    using assms(1) by (rule fl_rel_error_num)
  also have "\<dots> \<le> b / 9007199254740992"
    using assms(2) by (simp add: divide_right_mono)
  finally show ?thesis .
qed

lemma tiny_le: "2 powi (- 1022) \<le> (1 / 1048576 :: real)"
proof -
  have "(2::real) powi (- 1022) \<le> 2 powi (- 20)"
    by (rule power_int_increasing) simp_all
  then show ?thesis
    by (simp add: power_int_minus divide_simps)
qed

lemma finite_result_small:
  assumes "\<bar>fl x\<bar> \<le> 2 ^ 30"
  shows "finite_result err x = Inr (fl x)"
proof -
  have "(2::real) ^ 30 < 2 ^ 1024"
    by (rule power_strict_increasing) simp_all
  with assms have "\<bar>fl x\<bar> < 2 ^ 1024"
    by linarith
  then show ?thesis
    by (simp add: finite_result_def)
qed

text \<open>
  The rounding errors of \<^verbatim>\<open>action * LEN_STEP / 1000 * 1000\<close> for a whole number of
  actions up to a million and a step length between one half and three halves.
\<close>

lemma distance_round_trip:
  assumes k: "\<bar>k\<bar> \<le> 1000000" and s: "1 / 2 \<le> s" "s \<le> 3 / 2"
  shows "\<exists>D Z X. and_then (to_float (real_of_int k)) (\<lambda>a. and_then (fmul a s) (\<lambda>p. fdiv p 1000))
             = Inr D
           \<and> fmul D 1000 = Inr Z
           \<and> and_then (to_float (real_of_int k)) (\<lambda>a. fmul a s) = Inr X
           \<and> \<bar>Z - X\<bar> \<le> 1 / 10 ^ 9"
proof (cases "k = 0")
  case True
  have "and_then (to_float (real_of_int k)) (\<lambda>a. and_then (fmul a s) (\<lambda>p. fdiv p 1000))
      = Inr 0"
    unfolding True
    by (simp add: to_float_def fmul_def fdiv_def finite_result_0 and_then_Inr)
  moreover have "fmul 0 1000 = Inr 0"
    by (simp add: fmul_def finite_result_0)
  moreover have "and_then (to_float (real_of_int k)) (\<lambda>a. fmul a s) = Inr 0"
    unfolding True by (simp add: to_float_def fmul_def finite_result_0 and_then_Inr)
  ultimately show ?thesis
    by force
next
  case False
  define a where "a = real_of_int k"
  have a1: "1 \<le> \<bar>a\<bar>" and a2: "\<bar>a\<bar> \<le> 1000000"
    using False k unfolding a_def by linarith+
  note tiny = tiny_le
  \<comment> \<open>the action count as a float\<close>
  define a' where "a' = fl a"
  have "\<bar>a' - a\<bar> \<le> 1000000 / 9007199254740992"
    unfolding a'_def using tiny a1 a2 by (intro fl_rel_error_bound) linarith+
  then have a'1: "9 / 10 \<le> \<bar>a'\<bar>" and a'2: "\<bar>a'\<bar> \<le> 1000001"
    using a1 a2 by linarith+
  have ta: "to_float a = Inr a'"
    unfolding to_float_def a'_def using a'2
    by (intro finite_result_small) (simp add: a'_def)
  \<comment> \<open>the product with the step length\<close>
  define p where "p = a' * s"
  have pabs: "\<bar>p\<bar> = \<bar>a'\<bar> * s"
    using s by (simp add: p_def abs_mult)
  have "9 / 10 * (1 / 2) \<le> \<bar>a'\<bar> * s"
    using a'1 s by (intro mult_mono) simp_all
  then have p1: "9 / 20 \<le> \<bar>p\<bar>"
    unfolding pabs by simp
  have "\<bar>a'\<bar> * s \<le> 1000001 * (3 / 2)"
    using a'2 s by (intro mult_mono) simp_all
  then have p2: "\<bar>p\<bar> \<le> 1500002"
    unfolding pabs by simp
  define X where "X = fl p"
  have xe: "\<bar>X - p\<bar> \<le> 1500002 / 9007199254740992"
    unfolding X_def using tiny p1 p2 by (intro fl_rel_error_bound) linarith+
  then have x1: "4 / 10 \<le> \<bar>X\<bar>" and x2: "\<bar>X\<bar> \<le> 1500003"
    using p1 p2 by linarith+
  have tx: "fmul a' s = Inr X"
    unfolding fmul_def X_def p_def [symmetric] using x2
    by (intro finite_result_small) (simp add: X_def)
  \<comment> \<open>the division by 1000\<close>
  define q where "q = X / 1000"
  have q1: "4 / 10000 \<le> \<bar>q\<bar>" and q2: "\<bar>q\<bar> \<le> 1501"
    using x1 x2 unfolding q_def by simp_all
  define D where "D = fl q"
  have de: "\<bar>D - q\<bar> \<le> \<bar>q\<bar> / 9007199254740992"
    unfolding D_def using tiny q1 by (intro fl_rel_error_num) linarith
  have d2: "\<bar>D\<bar> \<le> 1502"
    using de q2 by linarith
  have td: "fdiv X 1000 = Inr D"
    unfolding D_def q_def using d2
    by (subst fdiv_nonzero, simp, intro finite_result_small) (simp add: D_def q_def)
  \<comment> \<open>and the multiplication by 1000\<close>
  define r where "r = D * 1000"
  have rx: "\<bar>r - X\<bar> \<le> \<bar>X\<bar> / 9007199254740992"
    using de unfolding r_def q_def by linarith
  have r1: "3 / 10 \<le> \<bar>r\<bar>" and r2: "\<bar>r\<bar> \<le> 1500004"
    using rx x1 x2 by linarith+
  define Z where "Z = fl r"
  have ze: "\<bar>Z - r\<bar> \<le> 1500004 / 9007199254740992"
    unfolding Z_def using tiny r1 r2 by (intro fl_rel_error_bound) linarith+
  have z2: "\<bar>Z\<bar> \<le> 1500005"
    using ze r2 by linarith
  have tz: "fmul D 1000 = Inr Z"
    unfolding fmul_def Z_def r_def [symmetric] using z2
    by (intro finite_result_small) (simp add: Z_def)
  have "\<bar>Z - X\<bar> \<le> 1500004 / 9007199254740992 + 1500003 / 9007199254740992"
    using ze rx x2 by linarith
  then have close: "\<bar>Z - X\<bar> \<le> 1 / 10 ^ 9"
    by simp
  have "and_then (to_float (real_of_int k)) (\<lambda>a. and_then (fmul a s) (\<lambda>p. fdiv p 1000))
      = Inr D"
    unfolding a_def [symmetric] by (simp only: ta tx td and_then_Inr)
  moreover have "and_then (to_float (real_of_int k)) (\<lambda>a. fmul a s) = Inr X"
    unfolding a_def [symmetric] by (simp only: ta tx and_then_Inr)
  ultimately show ?thesis
    using tz close by blast
qed

lemma fl_LEN_STEP_bounds: "1 / 2 \<le> fl (LEN_STEP t) \<and> fl (LEN_STEP t) \<le> 3 / 2"
proof -
  have b1: "1 / 2 \<le> fl 0.65 \<and> fl 0.65 \<le> 3 / 2"
    unfolding fl_0_65 by simp
  have b2: "1 / 2 \<le> fl 1.38 \<and> fl 1.38 \<le> 3 / 2"
    unfolding fl_1_38 by simp
  show ?thesis
    by (cases t) (simp_all only: LEN_STEP.simps b1 b2)
qed

lemma c6_distance:
  "get_distance_b64 (Swimming 11873189 1 80 25 40) = Inr (4503874730677323 / 2 ^ 38)"
  by (simp only: get_distance_b64_def training.sel LEN_STEP.simps M_IN_KM_def fl_1_38
      c6_a c6_x c6_d and_then_Inr)

lemma c6w_distance:
  "get_distance_b64 (Running 15000 1 75) = Inr (39 / 2 ^ 2)"
  by (simp only: get_distance_b64_def training.sel LEN_STEP.simps M_IN_KM_def fl_0_65
      c6w_a c6w_x c6w_d and_then_Inr)

text \<open>
  Claim C6, as stated, fails in binary64. For a Swimming instance with 11873189
  strokes, \<open>get_distance() * 1000\<close> and \<open>action * LEN_STEP\<close> are the floats
  4398315166677073 / 2 ^ 28 and 8796630333354147 / 2 ^ 29, which differ by 2 ^ - 29,
  about 1.86e-9 and more than the tolerance 1e-9.
\<close>

theorem distance_tolerance_counterexample:
  "get_distance_b64 (Swimming 11873189 1 80 25 40) = Inr (4503874730677323 / 2 ^ 38)
   \<and> fmul (4503874730677323 / 2 ^ 38) M_IN_KM = Inr (4398315166677073 / 2 ^ 28)
   \<and> and_then (to_float (training.action (Swimming 11873189 1 80 25 40)))
         (\<lambda>x. fmul x (fl (LEN_STEP (Swimming 11873189 1 80 25 40))))
       = Inr (8796630333354147 / 2 ^ 29)
   \<and> \<not> \<bar>4398315166677073 / 2 ^ 28 - 8796630333354147 / 2 ^ 29 :: real\<bar> \<le> 1 / 10 ^ 9"
proof -
  have z: "fmul (4503874730677323 / 2 ^ 38) M_IN_KM = Inr (4398315166677073 / 2 ^ 28)"
    by (simp only: M_IN_KM_def c6_z)
  have x: "and_then (to_float (training.action (Swimming 11873189 1 80 25 40)))
         (\<lambda>x. fmul x (fl (LEN_STEP (Swimming 11873189 1 80 25 40))))
       = Inr (8796630333354147 / 2 ^ 29)"
    by (simp only: training.sel LEN_STEP.simps fl_1_38 c6_a c6_x and_then_Inr)
  have far: "\<not> \<bar>4398315166677073 / 2 ^ 28 - 8796630333354147 / 2 ^ 29 :: real\<bar> \<le> 1 / 10 ^ 9"
    by simp
  show ?thesis
    using c6_distance z x far by blast
qed

text \<open>
  Claim C6, amended. The step length is 0.65 for Running and SportsWalking and 1.38 for
  Swimming, and for every instance with a whole number of actions of magnitude at most
  1000000, \<open>get_distance() * 1000\<close> and \<open>action * LEN_STEP\<close>, both computed in binary64
  with the step length of the instance, are floats that differ by at most 1e-9.
\<close>

theorem distance_step_length_b64:
  assumes "training.action t = real_of_int k" and "\<bar>k\<bar> \<le> 1000000"
  shows "LEN_STEP (Running a d w) = 0.65
   \<and> LEN_STEP (SportsWalking a d w h) = 0.65
   \<and> LEN_STEP (Swimming a d w l c) = 1.38
   \<and> (\<exists>D Z X. get_distance_b64 t = Inr D
         \<and> fmul D M_IN_KM = Inr Z
         \<and> and_then (to_float (training.action t)) (\<lambda>x. fmul x (fl (LEN_STEP t))) = Inr X
         \<and> \<bar>Z - X\<bar> \<le> 1 / 10 ^ 9)"
proof -
  note b = fl_LEN_STEP_bounds [of t]
  have "\<exists>D Z X. and_then (to_float (real_of_int k))
             (\<lambda>a. and_then (fmul a (fl (LEN_STEP t))) (\<lambda>p. fdiv p 1000)) = Inr D
           \<and> fmul D 1000 = Inr Z
           \<and> and_then (to_float (real_of_int k)) (\<lambda>a. fmul a (fl (LEN_STEP t))) = Inr X
           \<and> \<bar>Z - X\<bar> \<le> 1 / 10 ^ 9"
    using assms(2) b by (intro distance_round_trip) simp_all
  then have "\<exists>D Z X. get_distance_b64 t = Inr D
         \<and> fmul D M_IN_KM = Inr Z
         \<and> and_then (to_float (training.action t)) (\<lambda>x. fmul x (fl (LEN_STEP t))) = Inr X
         \<and> \<bar>Z - X\<bar> \<le> 1 / 10 ^ 9"
    by (simp only: get_distance_b64_def assms(1) M_IN_KM_def)
  then show ?thesis
    by simp
qed

text \<open>
  The sample run of 15000 steps: the distance is 9.75, and both products are 9750.
\<close>

theorem distance_step_length_b64_witness:
  "training.action (Running 15000 1 75) = real_of_int 15000
   \<and> \<bar>15000 :: int\<bar> \<le> 1000000
   \<and> get_distance_b64 (Running 15000 1 75) = Inr (39 / 2 ^ 2)
   \<and> fmul (39 / 2 ^ 2) M_IN_KM = Inr 9750
   \<and> (\<exists>D Z X. get_distance_b64 (Running 15000 1 75) = Inr D
         \<and> fmul D M_IN_KM = Inr Z
         \<and> and_then (to_float (training.action (Running 15000 1 75)))
              (\<lambda>x. fmul x (fl (LEN_STEP (Running 15000 1 75)))) = Inr X
         \<and> \<bar>Z - X\<bar> \<le> 1 / 10 ^ 9)"
proof -
  have a: "training.action (Running 15000 1 75) = real_of_int 15000"
    by simp
  have k: "\<bar>15000 :: int\<bar> \<le> 1000000"
    by simp
  have z: "fmul (39 / 2 ^ 2) M_IN_KM = Inr 9750"
    by (simp only: M_IN_KM_def c6w_z)
  show ?thesis
    using distance_step_length_b64 [OF a k] a k c6w_distance z by blast
qed

section \<open>Floor division in binary64 is the floor of the quotient\<close>


section \<open>Stored distance and stored speed in binary64\<close>









section \<open>The calories of a walk in binary64\<close>










end
